theory Spec2Isabelle
  imports Complex_Main
begin

section \<open>XGBDistribution: the estimator of xgb_dist/model.py\<close>

text \<open>
  The module defines one class, \<open>XGBDistribution\<close>, on top of the boosting engine's
  scikit-learn model. Its methods are embedded as functions on an explicit estimator state.
  A method that assigns to an attribute of \<open>self\<close> returns the updated state next to its
  outcome, so that what a raising call leaves behind is visible. An exception is an
  \<open>Inl\<close> outcome.

  Everything the class calls but does not define (the distribution registry and the
  Distribution objects of \<open>xgb_dist.distributions\<close>, the inherited members of
  \<open>xgb.XGBModel\<close>, \<open>_wrap_evaluation_matrices\<close>, \<open>xgb.train\<close>, \<open>DMatrix.get_label\<close>)
  is a parameter: a field of the record \<open>env\<close>. The theorems hold for every such
  environment.

  Scalars are real numbers: the statements below concern which element is stored where,
  not rounding.
\<close>

subsection \<open>Python values and exceptions\<close>

datatype pyval = PyNone | PyBool bool | PyInt int | PyFloat real | PyStr string

text \<open>Python's truth value, as used by \<open>x or y\<close>.\<close>

fun truthy :: "pyval \<Rightarrow> bool" where
  "truthy PyNone = False"
| "truthy (PyBool b) = b"
| "truthy (PyInt i) = (i \<noteq> 0)"
| "truthy (PyFloat r) = (r \<noteq> 0)"
| "truthy (PyStr s) = (s \<noteq> [])"

text \<open>\<open>a or b\<close>: the first operand when it is truthy, the second otherwise.\<close>

definition py_or :: "pyval \<Rightarrow> pyval \<Rightarrow> pyval" where
  "py_or a b = (if truthy a then a else b)"

datatype error =
    UnknownDistributionError
  | InvalidInputError
  | NotFittedError
  | EngineError
  | AttributeError string
  | IndexError
  | TypeError

subsection \<open>The Distribution interface\<close>

text \<open>
  Modelled from the spec: the Distribution objects of \<open>xgb_dist.distributions\<close> are not
  under src/. The record has the members the class uses, with the signatures of the spec's
  per-variant contract; \<open>'p\<close> is the array of raw predictions as the engine hands it over.
\<close>

record 'p distribution =
  dist_params :: "string list"
  dist_starting_params :: "real list \<Rightarrow> error + real list"
  dist_predict :: "'p \<Rightarrow> real list list"
  dist_gradient_and_hessian :: "real list \<Rightarrow> 'p \<Rightarrow> bool \<Rightarrow> real list list \<times> real list list"
  dist_loss :: "real list \<Rightarrow> 'p \<Rightarrow> string \<times> real"

subsection \<open>The estimator state\<close>

text \<open>
  \<open>distribution\<close>, \<open>natural_gradient\<close> are set by \<open>__init__\<close>; \<open>kwargs\<close> is what
  \<open>__init__\<close> hands to the superclass. The three optional fields are the attributes
  \<open>_distribution\<close>, \<open>_starting_params\<close> and \<open>_Booster\<close>, each \<open>None\<close> while the
  attribute does not exist.
\<close>

record ('p, 'b) estimator =
  distribution :: pyval
  natural_gradient :: bool
  kwargs :: "string \<rightharpoonup> pyval"
  attr_distribution :: "'p distribution option"
  attr_starting_params :: "real list option"
  attr_Booster :: "'b option"

subsection \<open>Arguments of the external calls\<close>

type_synonym features = "real list list"

text \<open>The keyword arguments of \<open>_wrap_evaluation_matrices\<close> (lines 44 to 60). The
  \<open>create_dmatrix\<close> closure is determined by the \<open>nthread\<close> it captures.\<close>

record wrap_args =
  w_missing :: pyval
  w_X :: features
  w_y :: "real list"
  w_group :: pyval
  w_qid :: pyval
  w_sample_weight :: pyval
  w_base_margin :: "real list"
  w_feature_weights :: pyval
  w_eval_set :: "(features \<times> real list) list option"
  w_sample_weight_eval_set :: pyval
  w_base_margin_eval_set :: "real list list option"
  w_eval_group :: pyval
  w_eval_qid :: pyval
  w_create_dmatrix_nthread :: pyval
  w_label_transform :: "real list \<Rightarrow> real list"

text \<open>The arguments of \<open>xgb.train\<close> (lines 62 to 71).\<close>

record ('p, 'm) train_args =
  t_params :: "string \<rightharpoonup> pyval"
  t_dtrain :: 'm
  t_num_boost_round :: nat
  t_evals :: "('m \<times> string) list"
  t_early_stopping_rounds :: "nat option"
  t_obj :: "'p \<Rightarrow> 'm \<Rightarrow> error + real list \<times> real list"
  t_feval :: "'p \<Rightarrow> 'm \<Rightarrow> error + string \<times> real"
  t_verbose_eval :: bool

text \<open>The arguments of the inherited \<open>predict\<close> (lines 88 to 95).\<close>

record predict_args =
  p_X :: features
  p_output_margin :: bool
  p_ntree_limit :: "nat option"
  p_validate_features :: bool
  p_base_margin :: "real list"
  p_iteration_range :: "(nat \<times> nat) option"

subsection \<open>The collaborators\<close>

record ('p, 'm, 'b) env =
  get_distribution :: "pyval \<Rightarrow> error + 'p distribution"
  get_xgb_params :: "('p, 'b) estimator \<Rightarrow> (string \<rightharpoonup> pyval)"
  get_num_boosting_rounds :: "('p, 'b) estimator \<Rightarrow> nat"
  missing :: "('p, 'b) estimator \<Rightarrow> pyval"
  n_jobs :: "('p, 'b) estimator \<Rightarrow> pyval"
  wrap_evaluation_matrices :: "wrap_args \<Rightarrow> error + 'm \<times> ('m \<times> string) list"
  train :: "('p, 'm) train_args \<Rightarrow> error + 'b"
  super_predict :: "('p, 'b) estimator \<Rightarrow> predict_args \<Rightarrow> error + 'p"
  get_label :: "'m \<Rightarrow> real list"

subsection \<open>\<open>__init__\<close> (lines 18 to 21)\<close>

text \<open>
  An omitted argument takes its default: \<open>None\<close> for \<open>distribution\<close>, \<open>True\<close> for
  \<open>natural_gradient\<close>. The superclass is called with \<open>objective=None\<close> and the remaining
  keyword arguments; Python rejects the call when those already hold \<open>objective\<close>.
\<close>

definition init ::
  "pyval option \<Rightarrow> bool option \<Rightarrow> (string \<rightharpoonup> pyval) \<Rightarrow> error + ('p, 'b) estimator" where
  "init distribution_arg natural_gradient_arg kw =
     (let d = (case distribution_arg of None \<Rightarrow> PyNone | Some v \<Rightarrow> v);
          ng = (case natural_gradient_arg of None \<Rightarrow> True | Some b \<Rightarrow> b)
      in if ''objective'' \<in> dom kw then Inl TypeError
         else Inr \<lparr> distribution = py_or d (PyStr ''normal''),
                    natural_gradient = ng,
                    kwargs = kw(''objective'' \<mapsto> PyNone),
                    attr_distribution = None,
                    attr_starting_params = None,
                    attr_Booster = None \<rparr>)"

subsection \<open>\<open>_get_base_margins\<close> (lines 130 to 137)\<close>

text \<open>\<open>ndarray.flatten\<close> of a two-dimensional array: the rows one after the other.\<close>

definition flatten :: "'a list list \<Rightarrow> 'a list" where
  "flatten m = concat m"

text \<open>
  One row \<open>param * ones(n_samples)\<close> per starting parameter, the array of these rows
  transposed, then flattened. Reading \<open>self._starting_params\<close> raises while the attribute
  is missing.
\<close>

definition get_base_margins :: "('p, 'b) estimator \<Rightarrow> nat \<Rightarrow> error + real list" where
  "get_base_margins self n_samples =
     (case attr_starting_params self of
        None \<Rightarrow> Inl (AttributeError ''_starting_params'')
      | Some sp \<Rightarrow>
          Inr (flatten (transpose (map (\<lambda>param. map (\<lambda>one. param * one) (replicate n_samples 1)) sp))))"

subsection \<open>\<open>_objective_func\<close> and \<open>_evaluation_func\<close> (lines 113 to 128)\<close>

text \<open>The closures read \<open>self\<close> when the engine calls them.\<close>

definition objective_func ::
  "('p, 'm, 'b) env \<Rightarrow> ('p, 'b) estimator \<Rightarrow> 'p \<Rightarrow> 'm \<Rightarrow> error + real list \<times> real list" where
  "objective_func env self params data =
     (let y = get_label env data
      in case attr_distribution self of
           None \<Rightarrow> Inl (AttributeError ''_distribution'')
         | Some d \<Rightarrow>
             (case dist_gradient_and_hessian d y params (natural_gradient self) of
                (grad, hess) \<Rightarrow> Inr (flatten grad, flatten hess)))"

definition evaluation_func ::
  "('p, 'm, 'b) env \<Rightarrow> ('p, 'b) estimator \<Rightarrow> 'p \<Rightarrow> 'm \<Rightarrow> error + string \<times> real" where
  "evaluation_func env self params data =
     (let y = get_label env data
      in case attr_distribution self of
           None \<Rightarrow> Inl (AttributeError ''_distribution'')
         | Some d \<Rightarrow> Inr (dist_loss d y params))"

subsection \<open>\<open>fit\<close> (lines 23 to 72)\<close>

text \<open>Lines 37 to 42: one base-margin vector per evaluation pair, or \<open>None\<close>.\<close>

fun base_margins_each ::
  "('p, 'b) estimator \<Rightarrow> (features \<times> real list) list \<Rightarrow> error + real list list" where
  "base_margins_each self [] = Inr []"
| "base_margins_each self (evals # rest) =
     (case get_base_margins self (length (snd evals)) of
        Inl e \<Rightarrow> Inl e
      | Inr bm \<Rightarrow>
          (case base_margins_each self rest of
             Inl e \<Rightarrow> Inl e
           | Inr bms \<Rightarrow> Inr (bm # bms)))"

definition base_margin_eval_set ::
  "('p, 'b) estimator \<Rightarrow> (features \<times> real list) list option \<Rightarrow> error + real list list option" where
  "base_margin_eval_set self eval_set =
     (case eval_set of
        Some es \<Rightarrow>
          (case base_margins_each self es of Inl e \<Rightarrow> Inl e | Inr bms \<Rightarrow> Inr (Some bms))
      | None \<Rightarrow> Inr None)"

text \<open>
  Lines 25 to 60, up to the call of \<open>_wrap_evaluation_matrices\<close>: the outcome is the
  engine parameters and the arguments of that call, or the exception raised before it.
\<close>

definition fit_wrap_request ::
  "('p, 'm, 'b) env \<Rightarrow> ('p, 'b) estimator \<Rightarrow> features \<Rightarrow> real list \<Rightarrow>
   (features \<times> real list) list option \<Rightarrow>
   (error + (string \<rightharpoonup> pyval) \<times> wrap_args) \<times> ('p, 'b) estimator" where
  "fit_wrap_request env self X y eval_set =
     (case get_distribution env (distribution self) of
        Inl e \<Rightarrow> (Inl e, self)
      | Inr d \<Rightarrow>
          let self1 = self\<lparr>attr_distribution := Some d\<rparr>;
              params = get_xgb_params env self1;
              params = params(''disable_default_eval_metric'' \<mapsto> PyBool True);
              params = params(''num_class'' \<mapsto> PyInt (int (length (dist_params d))));
              params = params(''base_score'' \<mapsto> PyFloat 0)
          in (case dist_starting_params d y of
                Inl e \<Rightarrow> (Inl e, self1)
              | Inr sp \<Rightarrow>
                  let self2 = self1\<lparr>attr_starting_params := Some sp\<rparr>
                  in (case get_base_margins self2 (length y) of
                        Inl e \<Rightarrow> (Inl e, self2)
                      | Inr base_margin \<Rightarrow>
                          (case base_margin_eval_set self2 eval_set of
                             Inl e \<Rightarrow> (Inl e, self2)
                           | Inr bm_eval_set \<Rightarrow>
                               (Inr (params,
                                     \<lparr> w_missing = missing env self2,
                                       w_X = X,
                                       w_y = y,
                                       w_group = PyNone,
                                       w_qid = PyNone,
                                       w_sample_weight = PyNone,
                                       w_base_margin = base_margin,
                                       w_feature_weights = PyNone,
                                       w_eval_set = eval_set,
                                       w_sample_weight_eval_set = PyNone,
                                       w_base_margin_eval_set = bm_eval_set,
                                       w_eval_group = PyNone,
                                       w_eval_qid = PyNone,
                                       w_create_dmatrix_nthread = n_jobs env self2,
                                       w_label_transform = (\<lambda>x. x) \<rparr>),
                                self2)))))"

text \<open>
  Lines 44 to 71, up to the call of \<open>xgb.train\<close>: the outcome is the arguments of that
  call, or the exception raised before it.
\<close>

definition fit_train_request ::
  "('p, 'm, 'b) env \<Rightarrow> ('p, 'b) estimator \<Rightarrow> features \<Rightarrow> real list \<Rightarrow>
   (features \<times> real list) list option \<Rightarrow> nat option \<Rightarrow> bool \<Rightarrow>
   (error + ('p, 'm) train_args) \<times> ('p, 'b) estimator" where
  "fit_train_request env self X y eval_set early_stopping_rounds verbose =
     (case fit_wrap_request env self X y eval_set of
        (Inl e, self') \<Rightarrow> (Inl e, self')
      | (Inr (params, wargs), self') \<Rightarrow>
          (case wrap_evaluation_matrices env wargs of
             Inl e \<Rightarrow> (Inl e, self')
           | Inr (train_dmatrix, evals) \<Rightarrow>
               (Inr \<lparr> t_params = params,
                      t_dtrain = train_dmatrix,
                      t_num_boost_round = get_num_boosting_rounds env self',
                      t_evals = evals,
                      t_early_stopping_rounds = early_stopping_rounds,
                      t_obj = objective_func env self',
                      t_feval = evaluation_func env self',
                      t_verbose_eval = verbose \<rparr>,
                self')))"

text \<open>The whole method: the ensemble returned by \<open>xgb.train\<close> is stored in \<open>_Booster\<close>.\<close>

definition fit ::
  "('p, 'm, 'b) env \<Rightarrow> ('p, 'b) estimator \<Rightarrow> features \<Rightarrow> real list \<Rightarrow>
   (features \<times> real list) list option \<Rightarrow> nat option \<Rightarrow> bool \<Rightarrow>
   (error + unit) \<times> ('p, 'b) estimator" where
  "fit env self X y eval_set early_stopping_rounds verbose =
     (case fit_train_request env self X y eval_set early_stopping_rounds verbose of
        (Inl e, self') \<Rightarrow> (Inl e, self')
      | (Inr targs, self') \<Rightarrow>
          (case train env targs of
             Inl e \<Rightarrow> (Inl e, self')
           | Inr booster \<Rightarrow> (Inr (), self'\<lparr>attr_Booster := Some booster\<rparr>)))"

subsection \<open>\<open>predict_dist\<close> and \<open>predict\<close> (lines 74 to 111)\<close>

definition predict_dist ::
  "('p, 'm, 'b) env \<Rightarrow> ('p, 'b) estimator \<Rightarrow> features \<Rightarrow> nat option \<Rightarrow> bool \<Rightarrow>
   (nat \<times> nat) option \<Rightarrow> (error + real list list) \<times> ('p, 'b) estimator" where
  "predict_dist env self X ntree_limit validate_features iteration_range =
     (case (case attr_distribution self of
              None \<Rightarrow>
                (case get_distribution env (distribution self) of
                   Inl e \<Rightarrow> Inl e
                 | Inr d \<Rightarrow> Inr (self\<lparr>attr_distribution := Some d\<rparr>, d))
            | Some d \<Rightarrow> Inr (self, d)) of
        Inl e \<Rightarrow> (Inl e, self)
      | Inr (self1, d) \<Rightarrow>
          (case get_base_margins self1 (length X) of
             Inl e \<Rightarrow> (Inl e, self1)
           | Inr base_margin \<Rightarrow>
               (case super_predict env self1
                       \<lparr> p_X = X,
                         p_output_margin = True,
                         p_ntree_limit = ntree_limit,
                         p_validate_features = validate_features,
                         p_base_margin = base_margin,
                         p_iteration_range = iteration_range \<rparr> of
                  Inl e \<Rightarrow> (Inl e, self1)
                | Inr params \<Rightarrow> (Inr (dist_predict d params), self1))))"

text \<open>\<open>predict_dist(...)[0]\<close>: indexing an empty sequence raises.\<close>

definition predict ::
  "('p, 'm, 'b) env \<Rightarrow> ('p, 'b) estimator \<Rightarrow> features \<Rightarrow> nat option \<Rightarrow> bool \<Rightarrow>
   (nat \<times> nat) option \<Rightarrow> (error + real list) \<times> ('p, 'b) estimator" where
  "predict env self X ntree_limit validate_features iteration_range =
     (case predict_dist env self X ntree_limit validate_features iteration_range of
        (Inl e, self') \<Rightarrow> (Inl e, self')
      | (Inr ps, self') \<Rightarrow>
          (case ps of [] \<Rightarrow> (Inl IndexError, self') | p # _ \<Rightarrow> (Inr p, self')))"

subsection \<open>Margin packing\<close>

text \<open>
  Modelled from the spec: \<open>pack\<close> and \<open>unpack\<close> of the MarginPacking component are not
  functions of src/ (the class only flattens, and leaves the unpacking to the engine and
  the Distribution). \<open>pack\<close> is the row-major flatten of a matrix of shape \<open>(n, K)\<close>;
  \<open>unpack\<close> takes the flat sequence and \<open>K\<close> and cuts it into rows of \<open>K\<close> values.
\<close>

definition pack :: "'a list list \<Rightarrow> 'a list" where
  "pack m = flatten m"

function unpack :: "'a list \<Rightarrow> nat \<Rightarrow> 'a list list" where
  "unpack flat K =
     (if K = 0 \<or> flat = [] then [] else take K flat # unpack (drop K flat) K)"
  by pat_completeness auto
termination
  by (relation "measure (\<lambda>(flat, K). length flat)") auto

declare unpack.simps [simp del]

subsection \<open>A concrete environment\<close>

text \<open>
  A two-parameter distribution with simple closed forms and an engine that answers with
  constants, for evaluating the class on concrete inputs. Raw predictions are matrices
  (one row per sample), a data handle is its label vector, an ensemble is its number of
  rounds.
\<close>

definition ex_distribution :: "real list list distribution" where
  "ex_distribution =
     \<lparr> dist_params = [''loc'', ''scale''],
       dist_starting_params =
         (\<lambda>y. if y = [] then Inl InvalidInputError
              else Inr [sum_list y / real (length y), 0]),
       dist_predict = (\<lambda>p. transpose p),
       dist_gradient_and_hessian =
         (\<lambda>y p natural. (map (map (\<lambda>v. if natural then v else 2 * v)) p, map (map (\<lambda>v. 1)) p)),
       dist_loss = (\<lambda>y p. (''nll'', sum_list (concat p))) \<rparr>"

definition ex_env :: "(real list list, real list, nat) env" where
  "ex_env =
     \<lparr> get_distribution =
         (\<lambda>name. if name = PyStr ''normal'' then Inr ex_distribution
                 else Inl UnknownDistributionError),
       get_xgb_params = (\<lambda>self. kwargs self),
       get_num_boosting_rounds = (\<lambda>self. 100),
       missing = (\<lambda>self. PyNone),
       n_jobs = (\<lambda>self. PyNone),
       wrap_evaluation_matrices =
         (\<lambda>w. Inr (w_y w,
                    case w_eval_set w of
                      None \<Rightarrow> []
                    | Some es \<Rightarrow> map (\<lambda>ev. (snd ev, ''validation'')) es)),
       train = (\<lambda>t. Inr (t_num_boost_round t)),
       super_predict =
         (\<lambda>self a. case attr_Booster self of
                     None \<Rightarrow> Inl NotFittedError
                   | Some b \<Rightarrow> Inr (map (\<lambda>row. [1, 2]) (p_X a))),
       get_label = (\<lambda>m. m) \<rparr>"

text \<open>The estimator \<open>XGBDistribution()\<close> builds, and one that holds fitted state.\<close>

definition ex_unfitted :: "(real list list, nat) estimator" where
  "ex_unfitted =
     \<lparr> distribution = PyStr ''normal'',
       natural_gradient = True,
       kwargs = [''objective'' \<mapsto> PyNone],
       attr_distribution = None,
       attr_starting_params = None,
       attr_Booster = None \<rparr>"

definition ex_fitted :: "(real list list, nat) estimator" where
  "ex_fitted =
     ex_unfitted\<lparr> attr_distribution := Some ex_distribution,
                  attr_starting_params := Some [5, 1 / 2],
                  attr_Booster := Some 100 \<rparr>"

text \<open>An estimator on which \<open>fit\<close> has not been called stores none of the fitted state.\<close>

definition unfitted :: "('p, 'b) estimator \<Rightarrow> bool" where
  "unfitted self \<longleftrightarrow>
     attr_distribution self = None \<and> attr_starting_params self = None \<and> attr_Booster self = None"

section \<open>Auxiliary facts\<close>

text \<open>Rectangular lists of rows: transposition, and the position of an entry after
  flattening.\<close>

lemma transpose_const_rows:
  "transpose (map (\<lambda>p. replicate n p) sp) = (if sp = [] then [] else replicate n sp)"
proof (cases "sp = []")
  case True
  then show ?thesis by simp
next
  case False
  let ?rows = "map (\<lambda>p. replicate n p) sp"
  have "transpose ?rows = map (\<lambda>i. map (\<lambda>j. ?rows ! j ! i) [0..<length ?rows]) [0..<n]"
    by (rule transpose_rectangle) (use False in simp_all)
  also have "\<dots> = map (\<lambda>i. sp) [0..<n]"
  proof (rule map_cong [OF refl])
    fix i assume "i \<in> set [0..<n]"
    then have i: "i < n" by simp
    show "map (\<lambda>j. ?rows ! j ! i) [0..<length ?rows] = sp"
      by (rule nth_equalityI) (use i in simp_all)
  qed
  also have "\<dots> = replicate n sp"
    by (simp add: map_replicate_const)
  finally show ?thesis using False by simp
qed

lemma rect_length_concat:
  "\<forall>row \<in> set m. length row = K \<Longrightarrow> length (concat m) = length m * K"
  by (induction m) simp_all

lemma rect_nth_concat:
  "\<forall>row \<in> set m. length row = K \<Longrightarrow> i < length m \<Longrightarrow> k < K \<Longrightarrow>
   concat m ! (i * K + k) = m ! i ! k"
proof (induction m arbitrary: i)
  case Nil
  then show ?case by simp
next
  case (Cons row m)
  show ?case
  proof (cases i)
    case 0
    with Cons.prems show ?thesis by (simp add: nth_append)
  next
    case (Suc j)
    with Cons.prems Cons.IH [of j] show ?thesis by (simp add: nth_append add.assoc)
  qed
qed

lemma base_margins_value:
  "flatten (transpose (map (replicate n) sp)) = concat (replicate n sp)"
  using transpose_const_rows [of n sp] by (simp add: flatten_def)

lemma get_base_margins_Some:
  "attr_starting_params self = Some sp \<Longrightarrow>
   get_base_margins self n = Inr (concat (replicate n sp))"
  by (simp add: get_base_margins_def base_margins_value)

lemma base_margins_each_Some:
  "attr_starting_params self = Some sp \<Longrightarrow>
   base_margins_each self es = Inr (map (\<lambda>ev. concat (replicate (length (snd ev)) sp)) es)"
  by (induction es) (simp_all add: get_base_margins_Some)

lemma unpack_append_row:
  "0 < K \<Longrightarrow> length row = K \<Longrightarrow> unpack (row @ rest) K = row # unpack rest K"
  by (subst unpack.simps) auto

lemma unpack_Nil: "unpack [] K = []"
  by (subst unpack.simps) simp

lemma base_margin_eval_set_Some:
  "attr_starting_params self = Some sp \<Longrightarrow>
   base_margin_eval_set self eval_set
   = Inr (map_option (map (\<lambda>ev. concat (replicate (length (snd ev)) sp))) eval_set)"
  by (cases eval_set) (simp_all add: base_margin_eval_set_def base_margins_each_Some)

text \<open>The three ways \<open>fit\<close> gets to, or fails before, the construction of the matrices.\<close>

lemma fit_wrap_request_unknown:
  "get_distribution env (distribution self) = Inl e \<Longrightarrow>
   fit_wrap_request env self X y eval_set = (Inl e, self)"
  by (simp add: fit_wrap_request_def)

lemma fit_wrap_request_invalid:
  "get_distribution env (distribution self) = Inr d \<Longrightarrow> dist_starting_params d y = Inl e \<Longrightarrow>
   fit_wrap_request env self X y eval_set = (Inl e, self\<lparr>attr_distribution := Some d\<rparr>)"
  by (simp add: fit_wrap_request_def Let_def)

lemma fit_wrap_request_built:
  assumes "get_distribution env (distribution self) = Inr d"
    and "dist_starting_params d y = Inr sp"
  shows "\<exists>wargs.
           fit_wrap_request env self X y eval_set
           = (Inr ((get_xgb_params env (self\<lparr>attr_distribution := Some d\<rparr>))
                     (''disable_default_eval_metric'' \<mapsto> PyBool True,
                      ''num_class'' \<mapsto> PyInt (int (length (dist_params d))),
                      ''base_score'' \<mapsto> PyFloat 0),
                   wargs),
              self\<lparr>attr_distribution := Some d, attr_starting_params := Some sp\<rparr>) \<and>
           w_base_margin wargs = concat (replicate (length y) sp) \<and>
           w_eval_set wargs = eval_set \<and>
           w_base_margin_eval_set wargs
           = map_option (map (\<lambda>ev. concat (replicate (length (snd ev)) sp))) eval_set"
proof -
  let ?self2 = "self\<lparr>attr_distribution := Some d, attr_starting_params := Some sp\<rparr>"
  have sp: "attr_starting_params ?self2 = Some sp" by simp
  show ?thesis
    using assms
    by (simp add: fit_wrap_request_def Let_def get_base_margins_Some [OF sp]
        base_margin_eval_set_Some [OF sp])
qed

lemma fit_wrap_request_cases:
  obtains
    (unknown) e where "get_distribution env (distribution self) = Inl e"
      "fit_wrap_request env self X y eval_set = (Inl e, self)"
  | (invalid) d e where "get_distribution env (distribution self) = Inr d"
      "dist_starting_params d y = Inl e"
      "fit_wrap_request env self X y eval_set = (Inl e, self\<lparr>attr_distribution := Some d\<rparr>)"
  | (built) d sp wargs where "get_distribution env (distribution self) = Inr d"
      "dist_starting_params d y = Inr sp"
      "fit_wrap_request env self X y eval_set
       = (Inr ((get_xgb_params env (self\<lparr>attr_distribution := Some d\<rparr>))
                 (''disable_default_eval_metric'' \<mapsto> PyBool True,
                  ''num_class'' \<mapsto> PyInt (int (length (dist_params d))),
                  ''base_score'' \<mapsto> PyFloat 0),
               wargs),
          self\<lparr>attr_distribution := Some d, attr_starting_params := Some sp\<rparr>)"
proof (cases "get_distribution env (distribution self)")
  case (Inl e)
  then show ?thesis using unknown fit_wrap_request_unknown by blast
next
  case (Inr d)
  show ?thesis
  proof (cases "dist_starting_params d y")
    case (Inl e)
    then show ?thesis using invalid Inr fit_wrap_request_invalid by blast
  next
    case sp: (Inr sp)
    from fit_wrap_request_built [OF Inr sp, of X eval_set]
    obtain wargs where "fit_wrap_request env self X y eval_set
       = (Inr ((get_xgb_params env (self\<lparr>attr_distribution := Some d\<rparr>))
                 (''disable_default_eval_metric'' \<mapsto> PyBool True,
                  ''num_class'' \<mapsto> PyInt (int (length (dist_params d))),
                  ''base_score'' \<mapsto> PyFloat 0),
               wargs),
          self\<lparr>attr_distribution := Some d, attr_starting_params := Some sp\<rparr>)"
      by blast
    then show ?thesis using built Inr sp by blast
  qed
qed

section \<open>Properties of the class\<close>

subsection \<open>Base margins\<close>

text \<open>
  Claim C4. For stored starting parameters \<open>s\<close> of length \<open>K\<close> and any number of samples
  \<open>n\<close>, \<open>_get_base_margins\<close> returns a flat vector of length \<open>n * K\<close> whose entry at
  index \<open>i * K + k\<close> is \<open>s[k]\<close>, for every sample \<open>i < n\<close> and parameter \<open>k < K\<close>: each
  parameter's base margin is the same constant for every sample.
\<close>

theorem get_base_margins_layout:
  assumes "attr_starting_params self = Some s"
  shows "\<exists>m. get_base_margins self n = Inr m \<and> length m = n * length s \<and>
             (\<forall>i<n. \<forall>k<length s. m ! (i * length s + k) = s ! k)"
proof -
  let ?m = "concat (replicate n s)"
  have rect: "\<forall>row \<in> set (replicate n s). length row = length s" by simp
  have "get_base_margins self n = Inr ?m"
    using assms by (rule get_base_margins_Some)
  moreover have "length ?m = n * length s"
    using rect_length_concat [OF rect] by simp
  moreover have "\<forall>i<n. \<forall>k<length s. ?m ! (i * length s + k) = s ! k"
    using rect_nth_concat [OF rect] by simp
  ultimately show ?thesis by blast
qed

theorem get_base_margins_layout_witness:
  "attr_starting_params ex_fitted = Some [5, 1 / 2] \<and>
   (\<exists>m. get_base_margins ex_fitted 3 = Inr m \<and> length m = 3 * length [5, 1 / 2 :: real] \<and>
        (\<forall>i<3. \<forall>k<length [5, 1 / 2 :: real]. m ! (i * length [5, 1 / 2 :: real] + k) = [5, 1 / 2] ! k))"
proof -
  have h: "attr_starting_params ex_fitted = Some [5, 1 / 2]"
    by (simp add: ex_fitted_def)
  show ?thesis using h get_base_margins_layout [OF h, of 3] by simp
qed

subsection \<open>Packing round trip\<close>

text \<open>
  Claim C5 as stated, for every shape \<open>(n, K)\<close>, fails at \<open>K = 0\<close>. A matrix with no
  columns flattens to the empty vector whatever its number of rows, so the rows cannot be
  recovered from the flat vector and \<open>K\<close>: unpacking the packed one-row, zero-column
  matrix does not give the matrix back.
\<close>

theorem unpack_pack_zero_columns_counterexample:
  "pack [[] :: real list] = pack [[], []] \<and> unpack (pack [[] :: real list]) 0 \<noteq> [[]]"
  by (simp add: pack_def flatten_def unpack_Nil)

text \<open>
  Claim C5, amended. For every matrix \<open>M\<close> of shape \<open>(n, K)\<close> with at least one column
  (\<open>K \<ge> 1\<close>), unpacking the packed vector with \<open>K\<close> gives back \<open>M\<close> exactly.
\<close>

theorem unpack_pack:
  assumes "0 < K" and "\<forall>row \<in> set M. length row = K"
  shows "unpack (pack M) K = M"
  using assms(2)
proof (induction M)
  case Nil
  show ?case by (simp add: pack_def flatten_def unpack_Nil)
next
  case (Cons row M)
  then have "unpack (pack M) K = M" and "length row = K" by simp_all
  then show ?case
    using assms(1) by (simp add: pack_def flatten_def unpack_append_row)
qed

theorem unpack_pack_witness:
  "(0::nat) < 2 \<and>
   unpack (pack [[1, 2], [3, 4], [5, 6 :: real]]) 2 = [[1, 2], [3, 4], [5, 6]]"
proof -
  have h1: "(0::nat) < 2" by simp
  have h2: "\<forall>row \<in> set [[1, 2], [3, 4], [5, 6 :: real]]. length row = 2" by simp
  show ?thesis using h1 unpack_pack [OF h1 h2] by simp
qed

subsection \<open>The callbacks\<close>

text \<open>
  Claim C7. The evaluation callback does not read the \<open>natural_gradient\<close> flag: on two
  estimators that differ in that flag only, it returns the same metric for every
  predictions and data input.
\<close>

theorem evaluation_func_ignores_natural_gradient:
  "evaluation_func env (self\<lparr>natural_gradient := b\<rparr>) params data
   = evaluation_func env self params data"
  by (simp add: evaluation_func_def)

text \<open>
  Claim C8. With a Distribution stored, the objective callback reads the labels of the data
  partition, calls the Distribution's \<open>gradient_and_hessian\<close> on these labels, the
  predictions as given and the estimator's \<open>natural_gradient\<close> flag, and returns both
  results flattened. When the gradient and the Hessian are matrices of shape \<open>(n, K)\<close>,
  each flat result has length \<open>n * K\<close> and holds entry \<open>(i, k)\<close> at index \<open>i * K + k\<close>.
\<close>

theorem objective_func_flattens:
  assumes "attr_distribution self = Some d"
    and "dist_gradient_and_hessian d (get_label env data) params (natural_gradient self) = (grad, hess)"
    and "length grad = n" and "\<forall>row \<in> set grad. length row = K"
    and "length hess = n" and "\<forall>row \<in> set hess. length row = K"
  shows "objective_func env self params data = Inr (flatten grad, flatten hess) \<and>
         length (flatten grad) = n * K \<and> length (flatten hess) = n * K \<and>
         (\<forall>i<n. \<forall>k<K. flatten grad ! (i * K + k) = grad ! i ! k \<and>
                        flatten hess ! (i * K + k) = hess ! i ! k)"
proof -
  have "objective_func env self params data = Inr (flatten grad, flatten hess)"
    using assms(1,2) by (simp add: objective_func_def)
  moreover have "length (flatten grad) = n * K" "length (flatten hess) = n * K"
    using rect_length_concat [OF assms(4)] rect_length_concat [OF assms(6)] assms(3,5)
    by (simp_all add: flatten_def)
  moreover have "\<forall>i<n. \<forall>k<K. flatten grad ! (i * K + k) = grad ! i ! k \<and>
                        flatten hess ! (i * K + k) = hess ! i ! k"
    using rect_nth_concat [OF assms(4)] rect_nth_concat [OF assms(6)] assms(3,5)
    by (simp add: flatten_def)
  ultimately show ?thesis by blast
qed

theorem objective_func_flattens_witness:
  "attr_distribution ex_fitted = Some ex_distribution \<and>
   dist_gradient_and_hessian ex_distribution (get_label ex_env [7, 8]) [[1, 2], [3, 4]]
       (natural_gradient ex_fitted) = ([[1, 2], [3, 4]], [[1, 1], [1, 1]]) \<and>
   objective_func ex_env ex_fitted [[1, 2], [3, 4]] [7, 8] = Inr ([1, 2, 3, 4], [1, 1, 1, 1])"
proof -
  have h1: "attr_distribution ex_fitted = Some ex_distribution"
    by (simp add: ex_fitted_def)
  have h2: "dist_gradient_and_hessian ex_distribution (get_label ex_env [7, 8]) [[1, 2], [3, 4]]
       (natural_gradient ex_fitted) = ([[1, 2], [3, 4]], [[1, 1], [1, 1]])"
    by (simp add: ex_distribution_def ex_fitted_def ex_unfitted_def)
  have h3: "length [[1, 2], [3, 4 :: real]] = 2" by simp
  have h4: "\<forall>row \<in> set [[1, 2], [3, 4 :: real]]. length row = 2" by simp
  have h5: "length [[1, 1], [1, 1 :: real]] = 2" by simp
  have h6: "\<forall>row \<in> set [[1, 1], [1, 1 :: real]]. length row = 2" by simp
  show ?thesis
    using h1 h2 objective_func_flattens [OF h1 h2 h3 h4 h5 h6]
    by (simp add: flatten_def)
qed

subsection \<open>Training\<close>

text \<open>
  Claim C9. When the distribution resolves to \<open>d\<close> and the starting parameters \<open>sp\<close> are
  computed, \<open>fit\<close> stores \<open>sp\<close> and calls \<open>_wrap_evaluation_matrices\<close> with the
  \<open>eval_set\<close> it was given and with \<open>base_margin_eval_set\<close> as follows. With an
  \<open>eval_set\<close>, one base-margin vector per evaluation pair, each built by
  \<open>_get_base_margins\<close> from the stored \<open>sp\<close> for the length of that pair's labels, hence
  of length \<open>len(y_eval) * K\<close> with \<open>K\<close> the length of \<open>sp\<close> (the number of parameters
  of \<open>d\<close> when \<open>starting_params\<close> returns one value per parameter); without an
  \<open>eval_set\<close>, \<open>None\<close>. The outcome of \<open>fit\<close> is the outcome of that call followed by
  \<open>xgb.train\<close> on the matrices it returns.
\<close>

theorem fit_eval_base_margins:
  assumes "get_distribution env (distribution self) = Inr d"
    and "dist_starting_params d y = Inr sp"
  shows "\<exists>params wargs self'.
           fit_wrap_request env self X y eval_set = (Inr (params, wargs), self') \<and>
           attr_starting_params self' = Some sp \<and>
           w_eval_set wargs = eval_set \<and>
           (case eval_set of
              None \<Rightarrow> w_base_margin_eval_set wargs = None
            | Some es \<Rightarrow>
                (\<exists>bms. w_base_margin_eval_set wargs = Some bms \<and> length bms = length es \<and>
                   (\<forall>j<length es.
                      get_base_margins self' (length (snd (es ! j))) = Inr (bms ! j) \<and>
                      length (bms ! j) = length (snd (es ! j)) * length sp \<and>
                      (length sp = length (dist_params d) \<longrightarrow>
                       length (bms ! j) = length (snd (es ! j)) * length (dist_params d))))) \<and>
           fit env self X y eval_set early_stopping_rounds verbose
           = (case wrap_evaluation_matrices env wargs of
                Inl e \<Rightarrow> (Inl e, self')
              | Inr (train_dmatrix, evals) \<Rightarrow>
                  (case train env
                          \<lparr> t_params = params,
                            t_dtrain = train_dmatrix,
                            t_num_boost_round = get_num_boosting_rounds env self',
                            t_evals = evals,
                            t_early_stopping_rounds = early_stopping_rounds,
                            t_obj = objective_func env self',
                            t_feval = evaluation_func env self',
                            t_verbose_eval = verbose \<rparr> of
                     Inl e \<Rightarrow> (Inl e, self')
                   | Inr booster \<Rightarrow> (Inr (), self'\<lparr>attr_Booster := Some booster\<rparr>)))"
proof -
  let ?self2 = "self\<lparr>attr_distribution := Some d, attr_starting_params := Some sp\<rparr>"
  have sp: "attr_starting_params ?self2 = Some sp" by simp
  from fit_wrap_request_built [OF assms, of X eval_set]
  obtain params wargs where
    req: "fit_wrap_request env self X y eval_set = (Inr (params, wargs), ?self2)" and
    es: "w_eval_set wargs = eval_set" and
    bms: "w_base_margin_eval_set wargs
          = map_option (map (\<lambda>ev. concat (replicate (length (snd ev)) sp))) eval_set"
    by blast
  have margins: "case eval_set of
          None \<Rightarrow> w_base_margin_eval_set wargs = None
        | Some es \<Rightarrow>
            (\<exists>bms. w_base_margin_eval_set wargs = Some bms \<and> length bms = length es \<and>
               (\<forall>j<length es.
                  get_base_margins ?self2 (length (snd (es ! j))) = Inr (bms ! j) \<and>
                  length (bms ! j) = length (snd (es ! j)) * length sp \<and>
                  (length sp = length (dist_params d) \<longrightarrow>
                   length (bms ! j) = length (snd (es ! j)) * length (dist_params d))))"
  proof (cases eval_set)
    case None
    with bms show ?thesis by simp
  next
    case (Some es)
    have rect: "\<And>n. length (concat (replicate n sp)) = n * length sp"
      using rect_length_concat [of "replicate n sp" "length sp" for n] by simp
    from Some bms show ?thesis
      by (simp add: get_base_margins_Some [OF sp] rect)
  qed
  have call: "fit env self X y eval_set early_stopping_rounds verbose
           = (case wrap_evaluation_matrices env wargs of
                Inl e \<Rightarrow> (Inl e, ?self2)
              | Inr (train_dmatrix, evals) \<Rightarrow>
                  (case train env
                          \<lparr> t_params = params,
                            t_dtrain = train_dmatrix,
                            t_num_boost_round = get_num_boosting_rounds env ?self2,
                            t_evals = evals,
                            t_early_stopping_rounds = early_stopping_rounds,
                            t_obj = objective_func env ?self2,
                            t_feval = evaluation_func env ?self2,
                            t_verbose_eval = verbose \<rparr> of
                     Inl e \<Rightarrow> (Inl e, ?self2)
                   | Inr booster \<Rightarrow> (Inr (), ?self2\<lparr>attr_Booster := Some booster\<rparr>)))"
    by (simp add: fit_def fit_train_request_def req split: sum.splits prod.splits)
  from req sp es margins call show ?thesis by blast
qed

theorem fit_eval_base_margins_witness:
  "get_distribution ex_env (distribution ex_unfitted) = Inr ex_distribution \<and>
   dist_starting_params ex_distribution [3, 4] = Inr [7 / 2, 0] \<and>
   (\<exists>params wargs self'.
      fit_wrap_request ex_env ex_unfitted [[1], [2]] [3, 4] (Some [([[1]], [7])])
      = (Inr (params, wargs), self') \<and>
      attr_starting_params self' = Some [7 / 2, 0] \<and>
      w_eval_set wargs = Some [([[1]], [7])] \<and>
      w_base_margin_eval_set wargs = Some [[7 / 2, 0]] \<and>
      wrap_evaluation_matrices ex_env wargs = Inr ([3, 4], [([7], ''validation'')]) \<and>
      fit ex_env ex_unfitted [[1], [2]] [3, 4] (Some [([[1]], [7])]) None True
      = (Inr (), self'\<lparr>attr_Booster := Some 100\<rparr>))"
proof -
  have h1: "get_distribution ex_env (distribution ex_unfitted) = Inr ex_distribution"
    by (simp add: ex_env_def ex_unfitted_def)
  have h2: "dist_starting_params ex_distribution [3, 4] = Inr [7 / 2, 0]"
    by (simp add: ex_distribution_def)
  from fit_eval_base_margins [OF h1 h2, of "[[1], [2]]" "Some [([[1]], [7])]" None True]
  obtain params wargs self' where
    req: "fit_wrap_request ex_env ex_unfitted [[1], [2]] [3, 4] (Some [([[1]], [7])])
          = (Inr (params, wargs), self')" and
    sp: "attr_starting_params self' = Some [7 / 2, 0]" and
    es: "w_eval_set wargs = Some [([[1]], [7])]" and
    bms: "\<exists>bms. w_base_margin_eval_set wargs = Some bms \<and> length bms = 1 \<and>
            get_base_margins self' 1 = Inr (bms ! 0)" and
    call: "fit ex_env ex_unfitted [[1], [2]] [3, 4] (Some [([[1]], [7])]) None True
           = (case wrap_evaluation_matrices ex_env wargs of
                Inl e \<Rightarrow> (Inl e, self')
              | Inr (train_dmatrix, evals) \<Rightarrow>
                  (case train ex_env
                          \<lparr> t_params = params,
                            t_dtrain = train_dmatrix,
                            t_num_boost_round = get_num_boosting_rounds ex_env self',
                            t_evals = evals,
                            t_early_stopping_rounds = None,
                            t_obj = objective_func ex_env self',
                            t_feval = evaluation_func ex_env self',
                            t_verbose_eval = True \<rparr> of
                     Inl e \<Rightarrow> (Inl e, self')
                   | Inr booster \<Rightarrow> (Inr (), self'\<lparr>attr_Booster := Some booster\<rparr>)))"
    by auto
  from bms obtain bms where b: "w_base_margin_eval_set wargs = Some bms" "length bms = 1"
    "get_base_margins self' 1 = Inr (bms ! 0)" by blast
  from b(3) sp have "bms ! 0 = [7 / 2, 0]"
    by (simp add: get_base_margins_def flatten_def)
  with b(2) have "bms = [[7 / 2, 0]]"
    by (cases bms) simp_all
  with b(1) have m: "w_base_margin_eval_set wargs = Some [[7 / 2, 0]]" by simp
  have y: "w_y wargs = [3, 4]"
    using req h1 h2
    by (simp add: fit_wrap_request_def Let_def get_base_margins_def base_margin_eval_set_def
        split: sum.splits) auto
  have w: "wrap_evaluation_matrices ex_env wargs = Inr ([3, 4], [([7], ''validation'')])"
    using es y by (simp add: ex_env_def)
  have f: "fit ex_env ex_unfitted [[1], [2]] [3, 4] (Some [([[1]], [7])]) None True
           = (Inr (), self'\<lparr>attr_Booster := Some 100\<rparr>)"
    by (simp add: call w) (simp add: ex_env_def)
  from h1 h2 req sp es m w f show ?thesis by blast
qed

text \<open>
  Claim C6. Whenever \<open>fit\<close> reaches \<open>xgb.train\<close>, the parameter set of that call has
  \<open>disable_default_eval_metric\<close> set to \<open>True\<close>, \<open>base_score\<close> set to \<open>0.0\<close> and
  \<open>num_class\<close> set to the number of parameters of the resolved Distribution, its \<open>obj\<close>
  and \<open>feval\<close> arguments are the estimator's objective and evaluation callbacks, and the
  outcome of \<open>fit\<close> is the outcome of that call.
\<close>

theorem fit_train_params:
  assumes "fit_train_request env self X y eval_set early_stopping_rounds verbose = (Inr targs, self')"
  shows "t_params targs ''disable_default_eval_metric'' = Some (PyBool True) \<and>
         t_params targs ''base_score'' = Some (PyFloat 0) \<and>
         (\<exists>d. get_distribution env (distribution self) = Inr d \<and>
              attr_distribution self' = Some d \<and>
              t_params targs ''num_class'' = Some (PyInt (int (length (dist_params d))))) \<and>
         t_obj targs = objective_func env self' \<and>
         t_feval targs = evaluation_func env self' \<and>
         fit env self X y eval_set early_stopping_rounds verbose
         = (case train env targs of
              Inl e \<Rightarrow> (Inl e, self')
            | Inr booster \<Rightarrow> (Inr (), self'\<lparr>attr_Booster := Some booster\<rparr>))"
proof (cases rule: fit_wrap_request_cases [of env self X y eval_set])
  case (unknown e)
  with assms show ?thesis by (simp add: fit_train_request_def)
next
  case (invalid d e)
  with assms show ?thesis by (simp add: fit_train_request_def)
next
  case (built d sp wargs)
  with assms show ?thesis
    by (auto simp: fit_train_request_def fit_def split: sum.splits prod.splits)
qed

theorem fit_train_params_witness:
  "\<exists>targs self'.
     fit_train_request ex_env ex_unfitted [[1], [2]] [3, 4] None None True = (Inr targs, self') \<and>
     t_params targs ''disable_default_eval_metric'' = Some (PyBool True) \<and>
     t_params targs ''base_score'' = Some (PyFloat 0) \<and>
     t_params targs ''num_class'' = Some (PyInt 2) \<and>
     t_obj targs = objective_func ex_env self' \<and>
     t_feval targs = evaluation_func ex_env self' \<and>
     fit ex_env ex_unfitted [[1], [2]] [3, 4] None None True
     = (Inr (), self'\<lparr>attr_Booster := Some 100\<rparr>)"
proof -
  have d: "get_distribution ex_env (distribution ex_unfitted) = Inr ex_distribution"
    by (simp add: ex_env_def ex_unfitted_def)
  have sp: "dist_starting_params ex_distribution [3, 4] = Inr [7 / 2, 0]"
    by (simp add: ex_distribution_def)
  from fit_wrap_request_built [OF d sp, of "[[1], [2]]" None]
  obtain params wargs self' where
    w: "fit_wrap_request ex_env ex_unfitted [[1], [2]] [3, 4] None = (Inr (params, wargs), self')"
    by blast
  have "\<exists>targs. fit_train_request ex_env ex_unfitted [[1], [2]] [3, 4] None None True
                 = (Inr targs, self') \<and> train ex_env targs = Inr 100"
    by (simp add: fit_train_request_def w) (simp add: ex_env_def)
  then obtain targs where
    h: "fit_train_request ex_env ex_unfitted [[1], [2]] [3, 4] None None True = (Inr targs, self')"
    and t: "train ex_env targs = Inr 100"
    by blast
  have k: "int (length (dist_params ex_distribution)) = 2"
    by (simp add: ex_distribution_def)
  from fit_train_params [OF h] d k t h show ?thesis
    by auto
qed

text \<open>
  Claim C2 as stated fails: a raising \<open>fit\<close> does not leave the estimator unfitted. The
  resolved Distribution is assigned to \<open>self._distribution\<close> before the starting parameters
  are computed, and nothing removes it when a later step raises. On empty labels the
  starting parameters are rejected, and the estimator ends with a Distribution stored.
\<close>

theorem fit_raises_stores_distribution_counterexample:
  "unfitted ex_unfitted \<and>
   fst (fit ex_env ex_unfitted [] [] None None True) = Inl InvalidInputError \<and>
   attr_distribution (snd (fit ex_env ex_unfitted [] [] None None True)) = Some ex_distribution \<and>
   \<not> unfitted (snd (fit ex_env ex_unfitted [] [] None None True))"
  by (simp add: unfitted_def fit_def fit_train_request_def fit_wrap_request_def Let_def ex_env_def
      ex_unfitted_def)
    (simp add: ex_distribution_def)

text \<open>
  Claim C2, amended. A call of \<open>fit\<close> that returns has stored the resolved Distribution,
  the starting parameters computed from the labels and the ensemble. A call that raises
  has stored no ensemble (\<open>_Booster\<close> is as before the call), and the estimator is
  otherwise unchanged only when the distribution lookup raised: when the starting
  parameters raised, the resolved Distribution is stored; when a later step raised, the
  resolved Distribution and the starting parameters are stored.
\<close>

theorem fit_outcome:
  assumes "fit env self X y eval_set early_stopping_rounds verbose = (out, self')"
  shows "case out of
           Inr u \<Rightarrow>
             (\<exists>d sp booster.
                get_distribution env (distribution self) = Inr d \<and>
                dist_starting_params d y = Inr sp \<and>
                self' = self\<lparr>attr_distribution := Some d, attr_starting_params := Some sp,
                             attr_Booster := Some booster\<rparr>)
         | Inl e \<Rightarrow>
             attr_Booster self' = attr_Booster self \<and>
             ((get_distribution env (distribution self) = Inl e \<and> self' = self) \<or>
              (\<exists>d. get_distribution env (distribution self) = Inr d \<and>
                   dist_starting_params d y = Inl e \<and>
                   self' = self\<lparr>attr_distribution := Some d\<rparr>) \<or>
              (\<exists>d sp. get_distribution env (distribution self) = Inr d \<and>
                   dist_starting_params d y = Inr sp \<and>
                   self' = self\<lparr>attr_distribution := Some d, attr_starting_params := Some sp\<rparr>))"
proof (cases rule: fit_wrap_request_cases [of env self X y eval_set])
  case (unknown e)
  with assms show ?thesis by (auto simp: fit_def fit_train_request_def)
next
  case (invalid d e)
  with assms show ?thesis by (auto simp: fit_def fit_train_request_def)
next
  case (built d sp wargs)
  with assms show ?thesis
    by (auto simp: fit_def fit_train_request_def split: sum.splits prod.splits)
qed

theorem fit_outcome_witness:
  "fit ex_env ex_unfitted [[1], [2]] [3, 4] None None True
   = (Inr (), ex_unfitted\<lparr>attr_distribution := Some ex_distribution,
                          attr_starting_params := Some [7 / 2, 0],
                          attr_Booster := Some 100\<rparr>) \<and>
   (\<exists>d sp booster.
      get_distribution ex_env (distribution ex_unfitted) = Inr d \<and>
      dist_starting_params d [3, 4] = Inr sp \<and>
      ex_unfitted\<lparr>attr_distribution := Some ex_distribution,
                  attr_starting_params := Some [7 / 2, 0],
                  attr_Booster := Some 100\<rparr>
      = ex_unfitted\<lparr>attr_distribution := Some d, attr_starting_params := Some sp,
                    attr_Booster := Some booster\<rparr>)"
proof -
  have h: "fit ex_env ex_unfitted [[1], [2]] [3, 4] None None True
           = (Inr (), ex_unfitted\<lparr>attr_distribution := Some ex_distribution,
                                  attr_starting_params := Some [7 / 2, 0],
                                  attr_Booster := Some 100\<rparr>)"
    by (simp add: fit_def fit_train_request_def fit_wrap_request_def Let_def get_base_margins_def
        base_margin_eval_set_def flatten_def ex_env_def ex_unfitted_def ex_distribution_def)
  show ?thesis using h fit_outcome [OF h] by simp
qed

subsection \<open>Prediction\<close>

text \<open>
  Claim C3. Whenever \<open>predict_dist\<close> returns a sequence with at least one element,
  \<open>predict\<close> on the same estimator, input and options returns the first element of that
  sequence (and leaves the estimator in the same state).
\<close>

theorem predict_first_of_predict_dist:
  assumes "predict_dist env self X ntree_limit validate_features iteration_range = (Inr ps, self')"
    and "ps \<noteq> []"
  shows "predict env self X ntree_limit validate_features iteration_range = (Inr (ps ! 0), self')"
  using assms by (cases ps) (simp_all add: predict_def)

theorem predict_first_of_predict_dist_witness:
  "predict_dist ex_env ex_fitted [[1], [2]] None False None = (Inr [[1, 1], [2, 2]], ex_fitted) \<and>
   [[1, 1], [2, 2 :: real]] \<noteq> [] \<and>
   predict ex_env ex_fitted [[1], [2]] None False None = (Inr [1, 1], ex_fitted)"
proof -
  have h1: "predict_dist ex_env ex_fitted [[1], [2]] None False None
            = (Inr [[1, 1], [2, 2]], ex_fitted)"
    by (simp add: predict_dist_def get_base_margins_def flatten_def ex_env_def
        ex_distribution_def ex_unfitted_def ex_fitted_def)
  have h2: "[[1, 1], [2, 2 :: real]] \<noteq> []" by simp
  show ?thesis using h1 h2 predict_first_of_predict_dist [OF h1 h2] by simp
qed

text \<open>
  Claim C1 as stated fails: on the estimator the constructor builds, with a name the
  registry resolves and an engine whose own \<open>predict\<close> would raise \<open>NotFittedError\<close>,
  both methods raise \<open>AttributeError\<close>. \<open>_get_base_margins\<close> reads the missing
  \<open>_starting_params\<close> before the engine is called.
\<close>

theorem predict_unfitted_counterexample:
  "init None None Map.empty = Inr ex_unfitted \<and> unfitted ex_unfitted \<and>
   fst (predict_dist ex_env ex_unfitted [[1], [2]] None False None)
     = Inl (AttributeError ''_starting_params'') \<and>
   fst (predict ex_env ex_unfitted [[1], [2]] None False None)
     = Inl (AttributeError ''_starting_params'') \<and>
   fst (predict_dist ex_env ex_unfitted [[1], [2]] None False None) \<noteq> Inl NotFittedError \<and>
   fst (predict ex_env ex_unfitted [[1], [2]] None False None) \<noteq> Inl NotFittedError"
  by (simp add: init_def py_or_def unfitted_def predict_def predict_dist_def
      get_base_margins_def ex_env_def ex_distribution_def ex_unfitted_def)

text \<open>
  Claim C1, amended. On an estimator on which \<open>fit\<close> has not been called (no ensemble,
  Distribution or starting parameters stored), \<open>predict\<close> and \<open>predict_dist\<close> raise and
  return no prediction: the error of the distribution lookup when the name does not
  resolve, otherwise \<open>AttributeError\<close> for the missing \<open>_starting_params\<close>.
\<close>

theorem predict_unfitted_raises:
  assumes "unfitted self"
  shows "fst (predict_dist env self X ntree_limit validate_features iteration_range)
         = (case get_distribution env (distribution self) of
              Inl e \<Rightarrow> Inl e
            | Inr d \<Rightarrow> Inl (AttributeError ''_starting_params'')) \<and>
         fst (predict env self X ntree_limit validate_features iteration_range)
         = (case get_distribution env (distribution self) of
              Inl e \<Rightarrow> Inl e
            | Inr d \<Rightarrow> Inl (AttributeError ''_starting_params''))"
  using assms
  by (simp add: unfitted_def predict_def predict_dist_def get_base_margins_def
      split: sum.splits)

theorem predict_unfitted_raises_witness:
  "unfitted (ex_unfitted\<lparr>distribution := PyStr ''poisson''\<rparr>) \<and>
   fst (predict_dist ex_env (ex_unfitted\<lparr>distribution := PyStr ''poisson''\<rparr>) [[1], [2]] None False None)
     = Inl UnknownDistributionError \<and>
   fst (predict ex_env (ex_unfitted\<lparr>distribution := PyStr ''poisson''\<rparr>) [[1], [2]] None False None)
     = Inl UnknownDistributionError"
proof -
  have h: "unfitted (ex_unfitted\<lparr>distribution := PyStr ''poisson''\<rparr>)"
    by (simp add: unfitted_def ex_unfitted_def)
  show ?thesis
    using h predict_unfitted_raises [OF h, of ex_env "[[1], [2]]" None False None]
    by (simp add: ex_env_def)
qed

subsection \<open>Construction\<close>

text \<open>
  Claim C10. When the \<open>distribution\<close> argument is omitted, \<open>None\<close> or any other falsy
  value (the empty string among them), and the call is accepted, the estimator's
  distribution name is \<open>"normal"\<close> and the estimator is the very one that
  \<open>distribution="normal"\<close> builds, so that a later lookup resolves the name \<open>"normal"\<close>; an
  omitted \<open>natural_gradient\<close> is \<open>True\<close>.
\<close>

theorem init_default_distribution:
  assumes "darg = None \<or> (\<exists>v. darg = Some v \<and> \<not> truthy v)"
    and "''objective'' \<notin> dom kw"
  shows "\<exists>est. init darg ngarg kw = Inr est \<and>
               distribution est = PyStr ''normal'' \<and>
               init (Some (PyStr ''normal'')) ngarg kw = Inr est \<and>
               (ngarg = None \<longrightarrow> natural_gradient est)"
  using assms by (auto simp: init_def py_or_def Let_def)

theorem init_default_distribution_witness:
  "\<not> truthy (PyStr '''') \<and> ''objective'' \<notin> dom (Map.empty :: string \<rightharpoonup> pyval) \<and>
   (\<exists>est :: (real list list, nat) estimator.
      init (Some (PyStr '''')) None Map.empty = Inr est \<and>
      distribution est = PyStr ''normal'' \<and>
      init (Some (PyStr ''normal'')) None Map.empty = Inr est \<and>
      natural_gradient est)"
proof -
  have h1: "Some (PyStr '''') = None \<or> (\<exists>v. Some (PyStr '''') = Some v \<and> \<not> truthy v)"
    by simp
  have h2: "''objective'' \<notin> dom (Map.empty :: string \<rightharpoonup> pyval)" by simp
  show ?thesis
    using h2 init_default_distribution [OF h1 h2, of None] by simp
qed

end
